theory Spec2Isabelle
  imports Complex_Main
begin

section \<open>JavaScript values used by the components\<close>

text \<open>
  An optional string parameter (\<^verbatim>\<open>projectId?: string\<close>) and a nullable string field
  (\<^verbatim>\<open>string | null\<close>) are both modelled as \<open>string option\<close>: \<open>None\<close> is
  \<^verbatim>\<open>undefined\<close> for a parameter and \<^verbatim>\<open>null\<close> for a field.
  JavaScript's truthiness of such a value: \<^verbatim>\<open>undefined\<close>, \<^verbatim>\<open>null\<close> and
  the empty string are falsy, every other string is truthy.
\<close>

fun truthy :: "string option \<Rightarrow> bool" where
  "truthy None = False"
| "truthy (Some s) = (s \<noteq> [])"

text \<open>The expression \<^verbatim>\<open>a || b\<close> on such values: \<open>a\<close> when it is truthy, else \<open>b\<close>.\<close>

definition js_or :: "string option \<Rightarrow> string option \<Rightarrow> string option" where
  "js_or a b = (if truthy a then a else b)"

section \<open>Navigation state of the App component\<close>

text \<open>
  \<^verbatim>\<open>export type View = 'dashboard' | 'editor' | 'projects' | 'templates' | 'analytics' | 'settings'\<close>
\<close>

datatype View =
    View_dashboard | View_editor | View_projects
  | View_templates | View_analytics | View_settings

text \<open>The string a \<open>View\<close> is at run time (TypeScript's types are erased).\<close>

fun view_tag :: "View \<Rightarrow> string" where
  "view_tag View_dashboard = ''dashboard''"
| "view_tag View_editor = ''editor''"
| "view_tag View_projects = ''projects''"
| "view_tag View_templates = ''templates''"
| "view_tag View_analytics = ''analytics''"
| "view_tag View_settings = ''settings''"

text \<open>The authenticated user of the backend; only its \<open>id\<close> is read by this code.\<close>

record User =
  user_id :: string

record AppState =
  currentView :: View
  selectedProjectId :: "string option"
  selectedPageId :: "string option"
  user :: "User option"

text \<open>The argument of \<^verbatim>\<open>useState<AppState>(...)\<close> in \<^verbatim>\<open>App\<close>.\<close>

definition initial_appState :: AppState where
  "initial_appState =
     \<lparr>currentView = View_dashboard, selectedProjectId = None,
      selectedPageId = None, user = None\<rparr>"

text \<open>
  \<^verbatim>\<open>navigateToView(view, projectId, pageId)\<close> hands React the updater
  \<^verbatim>\<open>prev => ({...prev, currentView: view, selectedProjectId: projectId || prev.selectedProjectId,
  selectedPageId: pageId || prev.selectedPageId})\<close>; the function below is that updater applied
  to the state \<open>prev\<close>.
\<close>

definition navigateToView ::
  "View \<Rightarrow> string option \<Rightarrow> string option \<Rightarrow> AppState \<Rightarrow> AppState" where
  "navigateToView view projectId pageId prev =
     prev\<lparr>currentView := view,
          selectedProjectId := js_or projectId (selectedProjectId prev),
          selectedPageId := js_or pageId (selectedPageId prev)\<rparr>"

text \<open>A navigation call is the triple of its arguments; a sequence of calls runs left to right.\<close>

type_synonym nav_call = "View \<times> string option \<times> string option"

fun apply_call :: "AppState \<Rightarrow> nav_call \<Rightarrow> AppState" where
  "apply_call s (view, projectId, pageId) = navigateToView view projectId pageId s"

definition run_calls :: "AppState \<Rightarrow> nav_call list \<Rightarrow> AppState" where
  "run_calls s calls = foldl apply_call s calls"

text \<open>
  Two readings of "the most recently passed value, or the initial one": the first keeps
  every argument that was passed at all (anything but \<^verbatim>\<open>undefined\<close>), the second only
  the truthy ones.
\<close>

definition latest_passed :: "string option list \<Rightarrow> string option \<Rightarrow> string option" where
  "latest_passed args init =
     (case filter (\<lambda>a. a \<noteq> None) args of [] \<Rightarrow> init | x # xs \<Rightarrow> last (x # xs))"

definition latest_truthy :: "string option list \<Rightarrow> string option \<Rightarrow> string option" where
  "latest_truthy args init =
     (case filter truthy args of [] \<Rightarrow> init | x # xs \<Rightarrow> last (x # xs))"

subsection \<open>The view router\<close>

text \<open>What \<^verbatim>\<open>renderView\<close> returns: one of the screens, the editor with its two props.\<close>

datatype Screen =
    DashboardScreen
  | PageEditorScreen "string option" "string option"
  | ProjectManagerScreen
  | TemplatesScreen
  | AnalyticsScreen
  | SettingsScreen

text \<open>
  The \<^verbatim>\<open>switch (appState.currentView)\<close> of \<^verbatim>\<open>renderView\<close>, on the run-time string,
  with its \<^verbatim>\<open>default\<close> branch.
\<close>

definition renderView_switch :: "string \<Rightarrow> string option \<Rightarrow> string option \<Rightarrow> Screen" where
  "renderView_switch tag projectId pageId =
     (if tag = ''dashboard'' then DashboardScreen
      else if tag = ''editor'' then PageEditorScreen projectId pageId
      else if tag = ''projects'' then ProjectManagerScreen
      else if tag = ''templates'' then TemplatesScreen
      else if tag = ''analytics'' then AnalyticsScreen
      else if tag = ''settings'' then SettingsScreen
      else DashboardScreen)"

definition renderView :: "AppState \<Rightarrow> Screen" where
  "renderView appState =
     renderView_switch (view_tag (currentView appState))
       (selectedProjectId appState) (selectedPageId appState)"

section \<open>Backend records (\<^verbatim>\<open>lib/supabase.ts\<close>)\<close>

text \<open>
  The rows of the \<^verbatim>\<open>projects\<close>, \<^verbatim>\<open>pages\<close> and \<^verbatim>\<open>analytics\<close> tables. An
  optional field is an \<open>option\<close>; \<^verbatim>\<open>theme_settings?: any\<close> and
  \<^verbatim>\<open>event_data?: any\<close> are kept as uninterpreted text; \<^verbatim>\<open>order_index: number\<close>
  is an integer.
\<close>

record Project =
  proj_id :: string
  proj_name :: string
  proj_description :: "string option"
  proj_domain :: "string option"
  proj_subdomain :: "string option"
  proj_created_at :: string
  proj_updated_at :: string
  proj_user_id :: string
  proj_is_published :: bool
  proj_theme_settings :: "string option"

record Page =
  page_id :: string
  page_project_id :: string
  page_title :: string
  page_slug :: string
  page_content :: string
  page_meta_description :: "string option"
  page_meta_keywords :: "string option"
  page_is_published :: bool
  page_order_index :: int
  page_parent_id :: "string option"
  page_created_at :: string
  page_updated_at :: string

record Analytics =
  an_id :: string
  an_project_id :: string
  an_page_id :: "string option"
  an_event_type :: string
  an_event_data :: "string option"
  an_timestamp :: string
  an_user_agent :: "string option"
  an_ip_address :: "string option"

section \<open>Requests to the backend and other effects\<close>

text \<open>
  The object literals handed to \<^verbatim>\<open>insert\<close> and \<^verbatim>\<open>update\<close>. A key that the literal
  does not have and a key whose value is \<^verbatim>\<open>null\<close> or \<^verbatim>\<open>undefined\<close> are both \<open>None\<close>.
\<close>

record ProjectInsert =
  ins_name :: string
  ins_description :: "string option"
  ins_subdomain :: "string option"
  ins_user_id :: string
  ins_is_published :: bool
  ins_theme_settings :: "string option"

record PageInsert =
  pins_project_id :: string
  pins_title :: string
  pins_slug :: string
  pins_content :: string
  pins_meta_description :: "string option"
  pins_meta_keywords :: "string option"
  pins_is_published :: bool
  pins_order_index :: int
  pins_parent_id :: "string option"

record ProjectUpdate =
  pupd_name :: string
  pupd_description :: string
  pupd_subdomain :: "string option"
  pupd_updated_at :: string

record PageUpdate =
  upd_title :: string
  upd_slug :: string
  upd_content :: string
  upd_meta_description :: string
  upd_meta_keywords :: string
  upd_is_published :: bool
  upd_updated_at :: string

text \<open>
  The calls on the \<^verbatim>\<open>supabase\<close> client made by the operations modelled here:
  \<^item> \<open>AuthGetUser\<close>: \<^verbatim>\<open>supabase.auth.getUser()\<close>;
  \<^item> \<open>ProjectsSelect col asc lim\<close>:
    \<^verbatim>\<open>from('projects').select('*').order(col, {ascending: asc})\<close>, with \<^verbatim>\<open>.limit(n)\<close>
    when \<open>lim = Some n\<close>;
  \<^item> \<open>ProjectsInsert row\<close>: \<^verbatim>\<open>from('projects').insert(row).select().single()\<close>;
  \<^item> \<open>ProjectsUpdate pid row\<close>:
    \<^verbatim>\<open>from('projects').update(row).eq('id', pid).select().single()\<close> and
    \<open>ProjectsDelete pid\<close>: \<^verbatim>\<open>from('projects').delete().eq('id', pid)\<close>, the calls
    of \<^verbatim>\<open>updateProject\<close> and \<^verbatim>\<open>deleteProject\<close>;
  \<^item> \<open>PagesSelectByProject pid\<close>: \<^verbatim>\<open>from('pages').select('*').eq('project_id', pid)\<close>;
  \<^item> \<open>PagesInsert rows\<close>: \<^verbatim>\<open>from('pages').insert(rows)\<close>, one object being the
    one-element list;
  \<^item> \<open>PagesUpdate pid row\<close>: \<^verbatim>\<open>from('pages').update(row).eq('id', pid)\<close>;
  \<^item> \<open>PagesDelete pid\<close>: \<^verbatim>\<open>from('pages').delete().eq('id', pid)\<close>;
  \<^item> \<open>AnalyticsSelectAll\<close>: \<^verbatim>\<open>from('analytics').select('*')\<close>.
\<close>

datatype Request =
    AuthGetUser
  | ProjectsSelect string bool "nat option"
  | ProjectsInsert ProjectInsert
  | ProjectsUpdate string ProjectUpdate
  | ProjectsDelete string
  | PagesSelectByProject string
  | PagesInsert "PageInsert list"
  | PagesUpdate string PageUpdate
  | PagesDelete string
  | AnalyticsSelectAll

text \<open>
  Everything an operation does besides updating its component's state, in the order in
  which it happens: backend calls, \<^verbatim>\<open>toast\<close> notifications, \<^verbatim>\<open>console.error\<close>
  and calls of the \<^verbatim>\<open>onNavigate\<close> prop.
\<close>

datatype Effect =
    Backend Request
  | Toast_error string
  | Toast_success string
  | Console_error string
  | Navigate View "string option" "string option"

text \<open>
  The backend is not part of this code: what it answers is a parameter of each
  operation. A call answers \<^verbatim>\<open>{data, error}\<close>: \<open>Inl e\<close> is a non-null \<^verbatim>\<open>error\<close>,
  \<open>Inr d\<close> is \<^verbatim>\<open>data\<close> with no error.
\<close>

type_synonym 'a response = "string + 'a"

text \<open>The calls that change or remove a row that exists.\<close>

fun modifies_rows :: "Request \<Rightarrow> bool" where
  "modifies_rows (ProjectsUpdate _ _) = True"
| "modifies_rows (ProjectsDelete _) = True"
| "modifies_rows (PagesUpdate _ _) = True"
| "modifies_rows (PagesDelete _) = True"
| "modifies_rows _ = False"

fun requests_of :: "Effect list \<Rightarrow> Request list" where
  "requests_of [] = []"
| "requests_of (Backend r # es) = r # requests_of es"
| "requests_of (_ # es) = requests_of es"

section \<open>Strings\<close>

text \<open>
  \<^verbatim>\<open>String.prototype.trim\<close> removes white space and line terminators from both ends.
  Strings are lists of 8-bit characters here; the white space among them is TAB, LF, VT,
  FF, CR, SPACE and NBSP.
\<close>

definition is_white_space :: "char \<Rightarrow> bool" where
  "is_white_space c =
     (c \<in> set [CHR 0x09, CHR 0x0A, CHR 0x0B, CHR 0x0C, CHR 0x0D, CHR 0x20, CHR 0xA0])"

definition trim :: "string \<Rightarrow> string" where
  "trim s = rev (dropWhile is_white_space (rev (dropWhile is_white_space s)))"

section \<open>Project manager (\<^verbatim>\<open>ProjectManager.tsx\<close>)\<close>

record ProjectForm =
  name :: string
  description :: string
  subdomain :: string

record ProjectManagerState =
  projects :: "Project list"
  loading :: bool
  showNewProjectDialog :: bool
  showEditProjectDialog :: bool
  editingProject :: "Project option"
  newProject :: ProjectForm
  editProject :: ProjectForm

definition empty_form :: ProjectForm where
  "empty_form = \<lparr>name = [], description = [], subdomain = []\<rparr>"

text \<open>The row inserted into \<^verbatim>\<open>projects\<close> by \<^verbatim>\<open>createProject\<close>.\<close>

definition createProject_row :: "ProjectForm \<Rightarrow> User \<Rightarrow> ProjectInsert" where
  "createProject_row form u =
     \<lparr>ins_name = name form,
      ins_description = Some (description form),
      ins_subdomain = js_or (Some (subdomain form)) None,
      ins_user_id = user_id u,
      ins_is_published = False,
      ins_theme_settings = None\<rparr>"

text \<open>The default home page inserted into \<^verbatim>\<open>pages\<close> by \<^verbatim>\<open>createProject\<close>.\<close>

definition home_page :: "ProjectForm \<Rightarrow> Project \<Rightarrow> PageInsert" where
  "home_page form data =
     \<lparr>pins_project_id = proj_id data,
      pins_title = ''Home'',
      pins_slug = ''home'',
      pins_content = ''# Welcome to '' @ name form @ [CHR 0x0A, CHR 0x0A]
         @ ''This is your homepage. Start editing to create amazing content!'',
      pins_meta_description = Some (''Welcome to '' @ name form),
      pins_meta_keywords = None,
      pins_is_published = False,
      pins_order_index = 0,
      pins_parent_id = None\<rparr>"

text \<open>
  \<^verbatim>\<open>createProject\<close>. \<open>getUser\<close> is the user \<^verbatim>\<open>supabase.auth.getUser()\<close> answers
  (\<open>None\<close> for \<^verbatim>\<open>null\<close>), \<open>inserted\<close> the answer to the insert into \<^verbatim>\<open>projects\<close>.
  The answer to the insert into \<^verbatim>\<open>pages\<close> is awaited and not looked at. Every
  \<^verbatim>\<open>throw\<close> lands in the \<^verbatim>\<open>catch\<close>, which logs and notifies.
\<close>

definition createProject ::
  "ProjectManagerState \<Rightarrow> User option \<Rightarrow> Project response
     \<Rightarrow> ProjectManagerState \<times> Effect list" where
  "createProject st getUser inserted =
     (if trim (name (newProject st)) = [] then
        (st, [Toast_error ''Project name is required''])
      else case getUser of
        None \<Rightarrow>
          (st, [Backend AuthGetUser,
                Console_error ''Error creating project:'',
                Toast_error ''Failed to create project''])
      | Some u \<Rightarrow>
          (case inserted of
             Inl err \<Rightarrow>
               (st, [Backend AuthGetUser,
                     Backend (ProjectsInsert (createProject_row (newProject st) u)),
                     Console_error ''Error creating project:'',
                     Toast_error ''Failed to create project''])
           | Inr data \<Rightarrow>
               (st\<lparr>projects := data # projects st,
                   showNewProjectDialog := False,
                   newProject := empty_form\<rparr>,
                [Backend AuthGetUser,
                 Backend (ProjectsInsert (createProject_row (newProject st) u)),
                 Backend (PagesInsert [home_page (newProject st) data]),
                 Toast_success ''Project created successfully!'',
                 Navigate View_editor (Some (proj_id data)) None])))"

text \<open>The row inserted into \<^verbatim>\<open>projects\<close> by \<^verbatim>\<open>duplicateProject\<close>.\<close>

definition duplicateProject_row :: "Project \<Rightarrow> User \<Rightarrow> ProjectInsert" where
  "duplicateProject_row project u =
     \<lparr>ins_name = proj_name project @ '' (Copy)'',
      ins_description = proj_description project,
      ins_subdomain = None,
      ins_user_id = user_id u,
      ins_is_published = False,
      ins_theme_settings = proj_theme_settings project\<rparr>"

text \<open>The body of \<^verbatim>\<open>pages.map(page => ({...}))\<close> in \<^verbatim>\<open>duplicateProject\<close>.\<close>

definition copy_page :: "Project \<Rightarrow> Page \<Rightarrow> PageInsert" where
  "copy_page newProj page =
     \<lparr>pins_project_id = proj_id newProj,
      pins_title = page_title page,
      pins_slug = page_slug page,
      pins_content = page_content page,
      pins_meta_description = page_meta_description page,
      pins_meta_keywords = page_meta_keywords page,
      pins_is_published = False,
      pins_order_index = page_order_index page,
      pins_parent_id = page_parent_id page\<rparr>"

text \<open>
  \<^verbatim>\<open>duplicateProject(project)\<close>. \<open>inserted\<close> answers the insert into \<^verbatim>\<open>projects\<close>,
  \<open>selected\<close> the query for the original's pages (its \<^verbatim>\<open>data\<close> may be \<^verbatim>\<open>null\<close>:
  \<open>None\<close>), \<open>pagesInserted\<close> is the error of the insert of the copies, if any.
\<close>

definition duplicateProject ::
  "ProjectManagerState \<Rightarrow> Project \<Rightarrow> User option \<Rightarrow> Project response
     \<Rightarrow> Page list option response \<Rightarrow> string option
     \<Rightarrow> ProjectManagerState \<times> Effect list" where
  "duplicateProject st project getUser inserted selected pagesInserted =
     (let failed = [Console_error ''Error duplicating project:'',
                    Toast_error ''Failed to duplicate project'']
      in case getUser of
        None \<Rightarrow> (st, Backend AuthGetUser # failed)
      | Some u \<Rightarrow>
          (let calls1 = [Backend AuthGetUser,
                         Backend (ProjectsInsert (duplicateProject_row project u))]
           in case inserted of
             Inl projectError \<Rightarrow> (st, calls1 @ failed)
           | Inr newProj \<Rightarrow>
               (let calls2 = calls1 @ [Backend (PagesSelectByProject (proj_id project))];
                    done = (st\<lparr>projects := newProj # projects st\<rparr>,
                            [Toast_success ''Project duplicated successfully!''])
                in case selected of
                  Inl pagesError \<Rightarrow> (st, calls2 @ failed)
                | Inr None \<Rightarrow> (fst done, calls2 @ snd done)
                | Inr (Some pages) \<Rightarrow>
                    (if length pages > 0 then
                       (let calls3 = calls2 @
                              [Backend (PagesInsert (map (copy_page newProj) pages))]
                        in case pagesInserted of
                          Some insertError \<Rightarrow> (st, calls3 @ failed)
                        | None \<Rightarrow> (fst done, calls3 @ snd done))
                     else (fst done, calls2 @ snd done)))))"

section \<open>Page editor (\<^verbatim>\<open>PageEditor\<close>)\<close>

record PageData =
  title :: string
  slug :: string
  content :: string
  metaDescription :: string
  metaKeywords :: string
  isPublished :: bool

text \<open>
  The props and the state of the component. One value of this record is also what the
  functions declared in the component's body see: each render declares
  \<^verbatim>\<open>handleSave\<close>, \<^verbatim>\<open>handlePublish\<close> and \<^verbatim>\<open>deletePage\<close> anew, closed over the
  constants \<^verbatim>\<open>projectId\<close>, \<^verbatim>\<open>currentPage\<close>, \<^verbatim>\<open>pages\<close>, \<^verbatim>\<open>pageData\<close> of that
  render.
\<close>

record PageEditor =
  projectId :: "string option"
  pageId :: "string option"
  project :: "Project option"
  currentPage :: "Page option"
  pages :: "Page list"
  editor_loading :: bool
  saving :: bool
  showNewPageDialog :: bool
  newPageTitle :: string
  pageData :: PageData

text \<open>The row handed to \<^verbatim>\<open>update\<close> by \<^verbatim>\<open>handleSave\<close>; \<open>now\<close> is
  \<^verbatim>\<open>new Date().toISOString()\<close>.\<close>

definition save_row :: "PageData \<Rightarrow> string \<Rightarrow> PageUpdate" where
  "save_row pd now =
     \<lparr>upd_title = title pd,
      upd_slug = slug pd,
      upd_content = content pd,
      upd_meta_description = metaDescription pd,
      upd_meta_keywords = metaKeywords pd,
      upd_is_published = isPublished pd,
      upd_updated_at = now\<rparr>"

text \<open>
  \<^verbatim>\<open>{...p, ...pageData, meta_description: ..., meta_keywords: ..., is_published: ...}\<close>:
  the fields of a page that the spread overwrites (\<^verbatim>\<open>title\<close>, \<^verbatim>\<open>slug\<close>,
  \<^verbatim>\<open>content\<close>) and the three named ones. The spread also copies the camel-case keys
  onto the object; they are no fields of a page and are left out.
\<close>

definition merge_pageData :: "Page \<Rightarrow> PageData \<Rightarrow> Page" where
  "merge_pageData p pd =
     p\<lparr>page_title := title pd,
       page_slug := slug pd,
       page_content := content pd,
       page_meta_description := Some (metaDescription pd),
       page_meta_keywords := Some (metaKeywords pd),
       page_is_published := isPublished pd\<rparr>"

text \<open>
  \<^verbatim>\<open>handleSave\<close>. \<open>scope\<close> is the render whose \<^verbatim>\<open>handleSave\<close> is called: the
  function reads \<^verbatim>\<open>currentPage\<close>, \<^verbatim>\<open>projectId\<close> and \<^verbatim>\<open>pageData\<close> there. \<open>cur\<close> is
  the component's state when the call runs: \<^verbatim>\<open>setSaving\<close> and the updater given to
  \<^verbatim>\<open>setPages\<close> change that state. \<open>updated\<close> is the error of the backend's answer,
  if any. \<^verbatim>\<open>saving\<close> is set before the call and cleared in the \<^verbatim>\<open>finally\<close>
  block, so it is false in the state the function leaves.
\<close>

definition handleSave ::
  "PageEditor \<Rightarrow> string \<Rightarrow> string option \<Rightarrow> PageEditor \<Rightarrow> PageEditor \<times> Effect list" where
  "handleSave scope now updated cur =
     (case currentPage scope of
        None \<Rightarrow> (cur, [])
      | Some cp \<Rightarrow>
          (if \<not> truthy (projectId scope) then (cur, [])
           else
             (let call = Backend (PagesUpdate (page_id cp) (save_row (pageData scope) now))
              in case updated of
                Some err \<Rightarrow>
                  (cur\<lparr>saving := False\<rparr>,
                   [call, Console_error ''Error saving page:'',
                    Toast_error ''Failed to save page''])
              | None \<Rightarrow>
                  (cur\<lparr>pages := map (\<lambda>p. if page_id p = page_id cp
                                           then merge_pageData p (pageData scope) else p)
                                     (pages cur),
                       saving := False\<rparr>,
                   [call, Toast_success ''Page saved successfully!'']))))"

text \<open>
  \<^verbatim>\<open>handlePublish\<close>, called in the render \<open>scope\<close>, which is also the component's state
  at that moment. It computes \<^verbatim>\<open>newPublishState\<close> from the \<^verbatim>\<open>pageData\<close> of its
  render, stores it with \<^verbatim>\<open>setPageData\<close>, and hands \<^verbatim>\<open>handleSave\<close> to
  \<^verbatim>\<open>setTimeout\<close>. The identifier \<^verbatim>\<open>handleSave\<close> is the constant of the same render,
  so the timer holds the function closed over \<open>scope\<close>; the state update makes React render
  again and declare another \<^verbatim>\<open>handleSave\<close>, which the timer does not hold. The result
  is the new state together with the render whose \<^verbatim>\<open>handleSave\<close> the timer will call.
\<close>

definition handlePublish :: "PageEditor \<Rightarrow> PageEditor \<times> PageEditor" where
  "handlePublish scope =
     (let newPublishState = \<not> isPublished (pageData scope)
      in (scope\<lparr>pageData := (pageData scope)\<lparr>isPublished := newPublishState\<rparr>\<rparr>, scope))"

text \<open>A click on the publish button, followed by the timer: the timer's
  \<^verbatim>\<open>handleSave\<close> runs on the state the click left.\<close>

definition publish_then_timer ::
  "PageEditor \<Rightarrow> string \<Rightarrow> string option \<Rightarrow> PageEditor \<times> Effect list" where
  "publish_then_timer scope now updated =
     (let (cur, timer_scope) = handlePublish scope
      in handleSave timer_scope now updated cur)"

text \<open>
  \<^verbatim>\<open>deletePage(pageToDelete)\<close>, called in the render \<open>st\<close>; \<open>deleted\<close> is the error of
  the backend's answer, if any.
\<close>

definition deletePage ::
  "PageEditor \<Rightarrow> Page \<Rightarrow> string option \<Rightarrow> PageEditor \<times> Effect list" where
  "deletePage st pageToDelete deleted =
     (if length (pages st) \<le> 1 then
        (st, [Toast_error ''Cannot delete the last page''])
      else
        (let call = Backend (PagesDelete (page_id pageToDelete))
         in case deleted of
           Some err \<Rightarrow>
             (st, [call, Console_error ''Error deleting page:'',
                   Toast_error ''Failed to delete page''])
         | None \<Rightarrow>
             (let updatedPages = filter (\<lambda>p. page_id p \<noteq> page_id pageToDelete) (pages st);
                  nav = (case (currentPage st, updatedPages) of
                           (Some cp, first # _) \<Rightarrow>
                             (if page_id cp = page_id pageToDelete
                              then [Navigate View_editor (projectId st) (Some (page_id first))]
                              else [])
                         | _ \<Rightarrow> [])
              in (st\<lparr>pages := updatedPages\<rparr>,
                  [call] @ nav @ [Toast_success ''Page deleted successfully'']))))"

section \<open>Dashboard\<close>

subsection \<open>The product \<^verbatim>\<open>totalViews * 0.4\<close> in double precision\<close>

text \<open>
  The literal \<^verbatim>\<open>0.4\<close> is the double \<open>3602879701896397 / 2 ^ 53\<close>. A count \<open>n\<close> below
  \<open>2 ^ 53\<close> is a double itself, and the product is the exact product
  \<open>n * 3602879701896397 / 2 ^ 53\<close> rounded to 53 significant bits, ties to even. Values
  are kept as numerators over \<open>2 ^ 53\<close>.
\<close>

definition double_0_4_numerator :: nat where
  "double_0_4_numerator = 3602879701896397"

fun bit_length :: "nat \<Rightarrow> nat" where
  "bit_length n = (if n = 0 then 0 else Suc (bit_length (n div 2)))"

declare bit_length.simps [simp del]

definition round_53_bits :: "nat \<Rightarrow> nat" where
  "round_53_bits N =
     (if bit_length N \<le> 53 then N
      else
        (let s = bit_length N - 53;
             q = N div 2 ^ s;
             r = N mod 2 ^ s;
             q' = (if 2 * r > 2 ^ s \<or> (2 * r = 2 ^ s \<and> odd q) then q + 1 else q)
         in q' * 2 ^ s))"

text \<open>\<^verbatim>\<open>Math.floor(n * 0.4)\<close>: the integer part of the rounded product.\<close>

definition floor_times_0_4 :: "nat \<Rightarrow> nat" where
  "floor_times_0_4 n = round_53_bits (n * double_0_4_numerator) div 2 ^ 53"

subsection \<open>\<^verbatim>\<open>loadDashboardData\<close>\<close>

record Stats =
  totalProjects :: nat
  publishedSites :: nat
  totalViews :: nat
  activeUsers :: nat

record DashboardState =
  dash_projects :: "Project list"
  stats :: Stats
  dash_loading :: bool

definition initial_dashboard :: DashboardState where
  "initial_dashboard =
     \<lparr>dash_projects = [],
      stats = \<lparr>totalProjects = 0, publishedSites = 0, totalViews = 0, activeUsers = 0\<rparr>,
      dash_loading = True\<rparr>"

text \<open>\<^verbatim>\<open>xs?.length || 0\<close> and \<^verbatim>\<open>xs || []\<close> for a list that may be \<^verbatim>\<open>null\<close>.\<close>

definition length_or_0 :: "'a list option \<Rightarrow> nat" where
  "length_or_0 xs = (case xs of None \<Rightarrow> 0 | Some ys \<Rightarrow> length ys)"

definition list_or_empty :: "'a list option \<Rightarrow> 'a list" where
  "list_or_empty xs = (case xs of None \<Rightarrow> [] | Some ys \<Rightarrow> ys)"

definition recent_projects_query :: Request where
  "recent_projects_query = ProjectsSelect ''updated_at'' False (Some 5)"

text \<open>
  \<^verbatim>\<open>loadDashboardData\<close>; \<open>projectsAnswer\<close> and \<open>analyticsAnswer\<close> are what the backend
  answers to the two queries. The \<^verbatim>\<open>finally\<close> block clears \<^verbatim>\<open>loading\<close> on every path.
\<close>

definition loadDashboardData ::
  "DashboardState \<Rightarrow> Project list option response \<Rightarrow> Analytics list option response
     \<Rightarrow> DashboardState \<times> Effect list" where
  "loadDashboardData st projectsAnswer analyticsAnswer =
     (case projectsAnswer of
        Inl projectsError \<Rightarrow>
          (st\<lparr>dash_loading := False\<rparr>,
           [Backend recent_projects_query,
            Console_error ''Error loading dashboard data:''])
      | Inr projectsData \<Rightarrow>
          (case analyticsAnswer of
             Inl analyticsError \<Rightarrow>
               (st\<lparr>dash_loading := False\<rparr>,
                [Backend recent_projects_query, Backend AnalyticsSelectAll,
                 Console_error ''Error loading dashboard data:''])
           | Inr analyticsData \<Rightarrow>
               (let total = length_or_0 projectsData;
                    published = length_or_0
                       (map_option (filter proj_is_published) projectsData);
                    views = length_or_0 analyticsData
                in (st\<lparr>dash_projects := list_or_empty projectsData,
                        stats := \<lparr>totalProjects = total,
                                  publishedSites = published,
                                  totalViews = views,
                                  activeUsers = floor_times_0_4 views\<rparr>,
                        dash_loading := False\<rparr>,
                    [Backend recent_projects_query, Backend AnalyticsSelectAll]))))"

section \<open>What a copy of a page keeps\<close>

text \<open>
  The fields that a copy made by duplicating a project is said to keep from its original:
  title, slug, content, the two meta fields, order index and parent.
\<close>

definition preserves_page :: "PageInsert \<Rightarrow> Page \<Rightarrow> bool" where
  "preserves_page c p =
     (pins_title c = page_title p \<and> pins_slug c = page_slug p
      \<and> pins_content c = page_content p
      \<and> pins_meta_description c = page_meta_description p
      \<and> pins_meta_keywords c = page_meta_keywords p
      \<and> pins_order_index c = page_order_index p
      \<and> pins_parent_id c = page_parent_id p)"

section \<open>Concrete inputs\<close>

definition example_user :: User where
  "example_user = \<lparr>user_id = ''u1''\<rparr>"

definition example_project :: Project where
  "example_project =
     \<lparr>proj_id = ''p1'', proj_name = ''Test'', proj_description = Some ''A site'',
      proj_domain = None, proj_subdomain = None, proj_created_at = ''2025-01-01'',
      proj_updated_at = ''2025-01-02'', proj_user_id = ''u1'',
      proj_is_published = True, proj_theme_settings = None\<rparr>"

definition example_new_project :: Project where
  "example_new_project =
     \<lparr>proj_id = ''p2'', proj_name = ''Test (Copy)'', proj_description = Some ''A site'',
      proj_domain = None, proj_subdomain = None, proj_created_at = ''2025-02-01'',
      proj_updated_at = ''2025-02-01'', proj_user_id = ''u1'',
      proj_is_published = False, proj_theme_settings = None\<rparr>"

definition example_page :: "string \<Rightarrow> string \<Rightarrow> bool \<Rightarrow> int \<Rightarrow> Page" where
  "example_page i t pub k =
     \<lparr>page_id = i, page_project_id = ''p1'', page_title = t, page_slug = ''home'',
      page_content = ''# Hello'', page_meta_description = Some ''About'',
      page_meta_keywords = None, page_is_published = pub, page_order_index = k,
      page_parent_id = None, page_created_at = ''2025-01-01'',
      page_updated_at = ''2025-01-02''\<rparr>"

definition example_pages :: "Page list" where
  "example_pages =
     [example_page ''g1'' ''Home'' True 0, example_page ''g2'' ''About'' False 1,
      example_page ''g3'' ''Contact'' True 2]"

definition example_manager :: "string \<Rightarrow> ProjectManagerState" where
  "example_manager n =
     \<lparr>projects = [example_project], loading = False, showNewProjectDialog = True,
      showEditProjectDialog = False, editingProject = None,
      newProject = \<lparr>name = n, description = [], subdomain = []\<rparr>,
      editProject = empty_form\<rparr>"

text \<open>An editor showing the only page of project \<open>p1\<close>, not published.\<close>

definition example_editor :: PageEditor where
  "example_editor =
     \<lparr>projectId = Some ''p1'', pageId = Some ''g1'', project = Some example_project,
      currentPage = Some (example_page ''g1'' ''Home'' False 0),
      pages = [example_page ''g1'' ''Home'' False 0],
      editor_loading = False, saving = False, showNewPageDialog = False,
      newPageTitle = [],
      pageData = \<lparr>title = ''Home'', slug = ''home'', content = ''# Hello'',
                  metaDescription = ''About'', metaKeywords = [], isPublished = False\<rparr>\<rparr>"

definition example_event :: Analytics where
  "example_event =
     \<lparr>an_id = ''e1'', an_project_id = ''p1'', an_page_id = Some ''g1'',
      an_event_type = ''page_view'', an_event_data = None,
      an_timestamp = ''2025-01-03'', an_user_agent = None, an_ip_address = None\<rparr>"

definition example_calls :: "nav_call list" where
  "example_calls =
     [(View_editor, Some ''p1'', None), (View_dashboard, None, None),
      (View_editor, Some [], Some ''g1'')]"

section \<open>Properties of navigation\<close>

lemma run_calls_Nil: "run_calls s [] = s"
  by (simp add: run_calls_def)

lemma run_calls_snoc:
  "run_calls s (calls @ [c]) = apply_call (run_calls s calls) c"
  by (simp add: run_calls_def)

lemma latest_truthy_snoc:
  "latest_truthy (args @ [a]) init = js_or a (latest_truthy args init)"
  by (cases "filter truthy args") (simp_all add: latest_truthy_def js_or_def)

lemma selectedProjectId_run:
  "selectedProjectId (run_calls s calls) =
     latest_truthy (map (\<lambda>c. fst (snd c)) calls) (selectedProjectId s)"
proof (induction calls rule: rev_induct)
  case Nil
  show ?case by (simp add: run_calls_Nil latest_truthy_def)
next
  case (snoc c calls)
  obtain v p q where c: "c = (v, p, q)" by (cases c)
  show ?case
    by (simp add: run_calls_snoc c navigateToView_def latest_truthy_snoc snoc.IH)
qed

lemma selectedPageId_run:
  "selectedPageId (run_calls s calls) =
     latest_truthy (map (\<lambda>c. snd (snd c)) calls) (selectedPageId s)"
proof (induction calls rule: rev_induct)
  case Nil
  show ?case by (simp add: run_calls_Nil latest_truthy_def)
next
  case (snoc c calls)
  obtain v p q where c: "c = (v, p, q)" by (cases c)
  show ?case
    by (simp add: run_calls_snoc c navigateToView_def latest_truthy_snoc snoc.IH)
qed

lemma currentView_run:
  "calls \<noteq> [] \<Longrightarrow> currentView (run_calls s calls) = fst (last calls)"
proof (induction calls rule: rev_induct)
  case Nil
  then show ?case by simp
next
  case (snoc c calls)
  obtain v p q where c: "c = (v, p, q)" by (cases c)
  show ?case by (simp add: run_calls_snoc c navigateToView_def)
qed

lemma take_pos_snoc:
  "0 < n \<Longrightarrow> n \<le> length xs \<Longrightarrow> take n xs = take (n - 1) xs @ [xs ! (n - 1)]"
  by (cases n) (simp_all add: take_Suc_conv_app_nth)

lemma js_or_not_None: "b \<noteq> None \<Longrightarrow> js_or a b \<noteq> None"
  by (cases a) (auto simp add: js_or_def)

lemma run_calls_keeps_project:
  "selectedProjectId s \<noteq> None \<Longrightarrow> selectedProjectId (run_calls s calls) \<noteq> None"
proof (induction calls rule: rev_induct)
  case Nil
  then show ?case by (simp add: run_calls_Nil)
next
  case (snoc c calls)
  obtain v p q where c: "c = (v, p, q)" by (cases c)
  from snoc show ?case
    by (simp add: run_calls_snoc c navigateToView_def js_or_not_None)
qed

lemma run_calls_keeps_page:
  "selectedPageId s \<noteq> None \<Longrightarrow> selectedPageId (run_calls s calls) \<noteq> None"
proof (induction calls rule: rev_induct)
  case Nil
  then show ?case by (simp add: run_calls_Nil)
next
  case (snoc c calls)
  obtain v p q where c: "c = (v, p, q)" by (cases c)
  from snoc show ?case
    by (simp add: run_calls_snoc c navigateToView_def js_or_not_None)
qed

lemma range_view_tag:
  "range view_tag =
     {''dashboard'', ''editor'', ''projects'', ''templates'', ''analytics'', ''settings''}"
proof -
  have "UNIV = {View_dashboard, View_editor, View_projects,
                View_templates, View_analytics, View_settings}"
    using View.exhaust by auto
  then have "range view_tag =
      view_tag ` {View_dashboard, View_editor, View_projects,
                  View_templates, View_analytics, View_settings}"
    by simp
  then show ?thesis by simp
qed

text \<open>
  C1, as the code has it. After each call of a sequence of \<open>navigateToView\<close> calls, from any
  state, \<open>currentView\<close> is the view of that call, and \<open>selectedProjectId\<close> and
  \<open>selectedPageId\<close> are the most recently passed argument that is neither absent nor the
  empty string, or the value of the starting state when there was none. An absent or empty
  argument keeps the previous value.
\<close>

theorem navigate_merge_retain:
  assumes "0 < n" and "n \<le> length calls"
  shows "currentView (run_calls s (take n calls)) = fst (calls ! (n - 1))
       \<and> selectedProjectId (run_calls s (take n calls)) =
           latest_truthy (map (\<lambda>c. fst (snd c)) (take n calls)) (selectedProjectId s)
       \<and> selectedPageId (run_calls s (take n calls)) =
           latest_truthy (map (\<lambda>c. snd (snd c)) (take n calls)) (selectedPageId s)"
proof -
  have split: "take n calls = take (n - 1) calls @ [calls ! (n - 1)]"
    using assms by (rule take_pos_snoc)
  then have "take n calls \<noteq> []" by simp
  then have "currentView (run_calls s (take n calls)) = fst (last (take n calls))"
    by (rule currentView_run)
  also have "last (take n calls) = calls ! (n - 1)"
    by (subst split) simp
  finally show ?thesis
    by (simp add: selectedProjectId_run selectedPageId_run)
qed

text \<open>
  The law at three calls from the initial state, the last of which passes the empty string
  as its project: the project of the first call stays selected.
\<close>

theorem navigate_merge_retain_witness:
  "(0::nat) < 3 \<and> 3 \<le> length example_calls
   \<and> currentView (run_calls initial_appState (take 3 example_calls)) = View_editor
   \<and> selectedProjectId (run_calls initial_appState (take 3 example_calls)) = Some ''p1''
   \<and> selectedPageId (run_calls initial_appState (take 3 example_calls)) = Some ''g1''"
proof -
  have h1: "(0::nat) < 3" by simp
  have h2: "3 \<le> length example_calls" by (simp add: example_calls_def)
  from navigate_merge_retain [OF h1 h2, of initial_appState] h2 show ?thesis
    by (simp add: example_calls_def latest_truthy_def initial_appState_def)
qed

text \<open>
  C1 as it is written fails when an empty string is passed: after
  \<^verbatim>\<open>navigateToView('editor', 'p1')\<close> and \<^verbatim>\<open>navigateToView('editor', '')\<close> the most
  recently passed project argument is the empty string, and the selected project is still
  \<open>p1\<close>.
\<close>

theorem navigate_empty_string_counterexample:
  "latest_passed [Some ''p1'', Some []] (selectedProjectId initial_appState) = Some []
   \<and> selectedProjectId
        (run_calls initial_appState
           [(View_editor, Some ''p1'', None), (View_editor, Some [], None)]) = Some ''p1''"
  by (simp add: latest_passed_def run_calls_def navigateToView_def js_or_def
        initial_appState_def)

text \<open>
  C2. From any state, \<^verbatim>\<open>navigateToView('editor', 'p1')\<close>, then
  \<^verbatim>\<open>navigateToView('dashboard')\<close>, then \<^verbatim>\<open>navigateToView('editor')\<close> end in the
  starting state with \<open>currentView\<close> set to \<open>editor\<close> and \<open>selectedProjectId\<close> to \<open>p1\<close>:
  \<open>selectedPageId\<close> is what it was before the three calls.
\<close>

theorem navigate_back_and_forth:
  "run_calls s [(View_editor, Some ''p1'', None), (View_dashboard, None, None),
                (View_editor, None, None)]
     = s\<lparr>currentView := View_editor, selectedProjectId := Some ''p1''\<rparr>"
  by (simp add: run_calls_def navigateToView_def js_or_def)

text \<open>
  C3. \<^verbatim>\<open>navigateToView('dashboard')\<close> twice in a row leaves the state that one call
  leaves.
\<close>

theorem navigate_dashboard_idempotent:
  "navigateToView View_dashboard None None (navigateToView View_dashboard None None s)
     = navigateToView View_dashboard None None s"
  by (simp add: navigateToView_def js_or_def)

text \<open>
  C9. \<open>renderView\<close> gives a screen for each of the six views, the \<^verbatim>\<open>switch\<close> sends every
  other tag to the dashboard screen, and the initial state shows the dashboard with no
  project and no page selected.
\<close>

theorem renderView_total:
  "renderView (s\<lparr>currentView := View_dashboard\<rparr>) = DashboardScreen
   \<and> renderView (s\<lparr>currentView := View_editor\<rparr>) =
        PageEditorScreen (selectedProjectId s) (selectedPageId s)
   \<and> renderView (s\<lparr>currentView := View_projects\<rparr>) = ProjectManagerScreen
   \<and> renderView (s\<lparr>currentView := View_templates\<rparr>) = TemplatesScreen
   \<and> renderView (s\<lparr>currentView := View_analytics\<rparr>) = AnalyticsScreen
   \<and> renderView (s\<lparr>currentView := View_settings\<rparr>) = SettingsScreen
   \<and> (tag \<notin> range view_tag \<longrightarrow> renderView_switch tag p q = DashboardScreen)
   \<and> currentView initial_appState = View_dashboard
   \<and> selectedProjectId initial_appState = None
   \<and> selectedPageId initial_appState = None"
proof -
  have "tag \<notin> range view_tag \<longrightarrow> renderView_switch tag p q = DashboardScreen"
  proof
    assume t: "tag \<notin> range view_tag"
    have "tag \<noteq> view_tag v" for v using t by blast
    from this [of View_dashboard] this [of View_editor] this [of View_projects]
      this [of View_templates] this [of View_analytics] this [of View_settings]
    show "renderView_switch tag p q = DashboardScreen"
      by (simp add: renderView_switch_def)
  qed
  then show ?thesis
    by (simp add: renderView_def renderView_switch_def initial_appState_def)
qed

text \<open>A tag outside the six, sent to the dashboard screen.\<close>

theorem renderView_total_witness:
  "''billing'' \<notin> range view_tag
   \<and> renderView_switch ''billing'' (Some ''p1'') None = DashboardScreen"
proof -
  have h: "''billing'' \<notin> range view_tag" by (simp add: range_view_tag)
  with renderView_total [of initial_appState "''billing''" "Some ''p1''" None]
  show ?thesis by blast
qed

text \<open>
  C10. A selected project, and a selected page, that is not null stays not null through
  every sequence of \<open>navigateToView\<close> calls; a call that passes the empty string as its
  project, or as its page, keeps the previous value of that selection.
\<close>

theorem navigate_never_clears:
  "(selectedProjectId s \<noteq> None \<longrightarrow> selectedProjectId (run_calls s calls) \<noteq> None)
   \<and> (selectedPageId s \<noteq> None \<longrightarrow> selectedPageId (run_calls s calls) \<noteq> None)
   \<and> selectedProjectId (navigateToView view (Some []) q s) = selectedProjectId s
   \<and> selectedPageId (navigateToView view p (Some []) s) = selectedPageId s"
  by (simp add: run_calls_keeps_project run_calls_keeps_page navigateToView_def js_or_def)

text \<open>
  With project \<open>p1\<close> and page \<open>g1\<close> selected, a visit to the dashboard and a call that
  passes two empty strings leave both selected.
\<close>

theorem navigate_never_clears_witness:
  "selectedProjectId
     (navigateToView View_editor (Some ''p1'') (Some ''g1'') initial_appState) \<noteq> None
   \<and> selectedPageId
     (navigateToView View_editor (Some ''p1'') (Some ''g1'') initial_appState) \<noteq> None
   \<and> selectedProjectId
        (run_calls (navigateToView View_editor (Some ''p1'') (Some ''g1'') initial_appState)
           [(View_dashboard, None, None), (View_editor, Some [], Some [])]) \<noteq> None
   \<and> selectedPageId
        (run_calls (navigateToView View_editor (Some ''p1'') (Some ''g1'') initial_appState)
           [(View_dashboard, None, None), (View_editor, Some [], Some [])]) \<noteq> None"
proof -
  let ?s = "navigateToView View_editor (Some ''p1'') (Some ''g1'') initial_appState"
  have h1: "selectedProjectId ?s \<noteq> None" and h2: "selectedPageId ?s \<noteq> None"
    by (simp_all add: navigateToView_def js_or_def)
  from navigate_never_clears
    [of ?s "[(View_dashboard, None, None), (View_editor, Some [], Some [])]"] h1 h2
  show ?thesis by blast
qed

section \<open>Properties of the page editor and the project manager\<close>

text \<open>
  C4. When the editor holds exactly one page, \<open>deletePage\<close> on any page makes no backend
  call and leaves the component's state as it is, the page list and the current page
  included; all it does is show the error notification.
\<close>

theorem deletePage_last_page_rejected:
  assumes "length (pages st) = 1"
  shows "deletePage st pageToDelete deleted = (st, [Toast_error ''Cannot delete the last page''])
       \<and> requests_of (snd (deletePage st pageToDelete deleted)) = []
       \<and> pages (fst (deletePage st pageToDelete deleted)) = pages st
       \<and> currentPage (fst (deletePage st pageToDelete deleted)) = currentPage st"
  using assms by (simp add: deletePage_def)

text \<open>
  The editor with the single page \<open>g1\<close>, asked to delete it.
\<close>

theorem deletePage_last_page_rejected_witness:
  "length (pages example_editor) = 1
   \<and> deletePage example_editor (example_page ''g1'' ''Home'' False 0) None
       = (example_editor, [Toast_error ''Cannot delete the last page''])"
proof -
  have h: "length (pages example_editor) = 1" by (simp add: example_editor_def)
  from deletePage_last_page_rejected [OF h, of "example_page ''g1'' ''Home'' False 0" None] h
  show ?thesis by simp
qed

text \<open>
  With two pages the guard does not apply and the delete call is made.
\<close>

lemma deletePage_two_pages:
  "requests_of
     (snd (deletePage
        (example_editor\<lparr>pages := [example_page ''g1'' ''Home'' False 0,
                                   example_page ''g2'' ''About'' False 1]\<rparr>)
        (example_page ''g1'' ''Home'' False 0) None)) = [PagesDelete ''g1'']"
  by (simp add: deletePage_def example_editor_def example_page_def Let_def)

text \<open>
  C5, as the code has it. When the project name is not empty after trimming, the backend
  reports a signed-in user and the insert of the project succeeds, \<open>createProject\<close> makes
  exactly three backend calls, the last of which inserts exactly one page: for the project
  just created, with title \<open>Home\<close>, slug \<open>home\<close>, not published, at order index 0. When
  the name is empty after trimming, no backend call is made and the error notification is
  shown.
\<close>

theorem createProject_home_page:
  "(trim (name (newProject st)) \<noteq> [] \<and> getUser = Some u \<and> inserted = Inr data \<longrightarrow>
      requests_of (snd (createProject st getUser inserted)) =
        [AuthGetUser, ProjectsInsert (createProject_row (newProject st) u),
         PagesInsert [home_page (newProject st) data]]
      \<and> pins_project_id (home_page (newProject st) data) = proj_id data
      \<and> pins_title (home_page (newProject st) data) = ''Home''
      \<and> pins_slug (home_page (newProject st) data) = ''home''
      \<and> pins_is_published (home_page (newProject st) data) = False
      \<and> pins_order_index (home_page (newProject st) data) = 0)
   \<and> (trim (name (newProject st)) = [] \<longrightarrow>
        snd (createProject st getUser inserted) = [Toast_error ''Project name is required'']
        \<and> requests_of (snd (createProject st getUser inserted)) = [])"
  by (simp add: createProject_def home_page_def)

lemma trim_Test: "trim ''Test'' = ''Test''"
  by (simp add: trim_def is_white_space_def)

lemma trim_space: "trim '' '' = []"
  by (simp add: trim_def is_white_space_def)

text \<open>
  The name \<open>Test\<close> with a signed-in user and a successful insert, and the name of one
  space.
\<close>

theorem createProject_home_page_witness:
  "trim ''Test'' \<noteq> []
   \<and> requests_of (snd (createProject (example_manager ''Test'') (Some example_user)
                          (Inr example_new_project))) =
       [AuthGetUser,
        ProjectsInsert \<lparr>ins_name = ''Test'', ins_description = Some [], ins_subdomain = None,
          ins_user_id = ''u1'', ins_is_published = False, ins_theme_settings = None\<rparr>,
        PagesInsert [home_page \<lparr>name = ''Test'', description = [], subdomain = []\<rparr> example_new_project]]
   \<and> trim '' '' = []
   \<and> requests_of (snd (createProject (example_manager '' '') (Some example_user)
                          (Inr example_new_project))) = []"
proof -
  have n1: "name (newProject (example_manager ''Test'')) = ''Test''"
    and n2: "name (newProject (example_manager '' '')) = '' ''"
    by (simp_all add: example_manager_def)
  from createProject_home_page
    [of "example_manager ''Test''" "Some example_user" example_user
        "Inr example_new_project" example_new_project]
  have a: "requests_of (snd (createProject (example_manager ''Test'') (Some example_user)
                          (Inr example_new_project))) =
        [AuthGetUser, ProjectsInsert (createProject_row (newProject (example_manager ''Test'')) example_user),
         PagesInsert [home_page (newProject (example_manager ''Test'')) example_new_project]]"
    by (simp add: n1 trim_Test)
  from createProject_home_page
    [of "example_manager '' ''" "Some example_user" example_user
        "Inr example_new_project" example_new_project]
  have b: "requests_of (snd (createProject (example_manager '' '') (Some example_user)
                          (Inr example_new_project))) = []"
    by (simp add: n2 trim_space)
  from a b show ?thesis
    by (simp add: trim_Test trim_space createProject_row_def example_manager_def
          example_user_def js_or_def)
qed

text \<open>
  C5 as it is written fails when the backend rejects the insert of the project: with the
  name \<open>Test\<close> the operation reads the user, tries the insert, and ends in its
  \<^verbatim>\<open>catch\<close> without inserting a page.
\<close>

theorem createProject_rejected_counterexample:
  "name (newProject (example_manager ''Test'')) = ''Test''
   \<and> createProject (example_manager ''Test'') (Some example_user) (Inl ''permission denied'')
     = (example_manager ''Test'',
        [Backend AuthGetUser,
         Backend (ProjectsInsert \<lparr>ins_name = ''Test'', ins_description = Some [],
            ins_subdomain = None, ins_user_id = ''u1'', ins_is_published = False,
            ins_theme_settings = None\<rparr>),
         Console_error ''Error creating project:'',
         Toast_error ''Failed to create project''])"
  by (simp add: createProject_def example_manager_def trim_Test createProject_row_def
        example_user_def js_or_def)

lemma requests_of_append: "requests_of (xs @ ys) = requests_of xs @ requests_of ys"
  by (induction xs rule: requests_of.induct) simp_all

lemma copies_preserve: "list_all2 preserves_page (map (copy_page newProj) pgs) pgs"
  by (induction pgs) (simp_all add: preserves_page_def copy_page_def)

lemma duplicateProject_never_modifies:
  "list_all (\<lambda>r. \<not> modifies_rows r)
     (requests_of (snd (duplicateProject st original getUser inserted selected pagesInserted)))"
  by (simp add: duplicateProject_def Let_def requests_of_append
        split: option.split sum.split)

text \<open>
  C6, as the code has it. On every path \<open>duplicateProject\<close> makes no call that changes or
  removes an existing row. When the backend reports a signed-in user, the insert of the new
  project succeeds and the query for the original's pages answers 3 pages, the calls are:
  reading the user, one insert of a project (named after the original, not published), the
  query, and one insert of 3 pages, each for the new project, not published, and keeping
  title, slug, content, meta fields, order index and parent of its original. The list of
  projects gains the new project in front when that last insert succeeds and stays as it
  was when it fails.
\<close>

theorem duplicateProject_copies_pages:
  "list_all (\<lambda>r. \<not> modifies_rows r)
     (requests_of (snd (duplicateProject st original getUser inserted selected pagesInserted)))
   \<and> (getUser = Some u \<and> inserted = Inr newProj \<and> selected = Inr (Some pgs)
        \<and> length pgs = 3 \<longrightarrow>
      requests_of (snd (duplicateProject st original getUser inserted selected pagesInserted)) =
        [AuthGetUser, ProjectsInsert (duplicateProject_row original u),
         PagesSelectByProject (proj_id original),
         PagesInsert (map (copy_page newProj) pgs)]
      \<and> length (map (copy_page newProj) pgs) = 3
      \<and> list_all2 preserves_page (map (copy_page newProj) pgs) pgs
      \<and> list_all (\<lambda>c. pins_project_id c = proj_id newProj \<and> \<not> pins_is_published c)
           (map (copy_page newProj) pgs)
      \<and> ins_name (duplicateProject_row original u) = proj_name original @ '' (Copy)''
      \<and> \<not> ins_is_published (duplicateProject_row original u)
      \<and> projects (fst (duplicateProject st original getUser inserted selected pagesInserted)) =
           (if pagesInserted = None then newProj # projects st else projects st))"
proof -
  have frame: "list_all (\<lambda>r. \<not> modifies_rows r)
     (requests_of (snd (duplicateProject st original getUser inserted selected pagesInserted)))"
    by (rule duplicateProject_never_modifies)
  have flags: "list_all (\<lambda>c. pins_project_id c = proj_id newProj \<and> \<not> pins_is_published c)
           (map (copy_page newProj) pgs)"
    by (induction pgs) (simp_all add: copy_page_def)
  show ?thesis
    using frame flags copies_preserve [of newProj pgs]
    by (auto simp add: duplicateProject_def Let_def requests_of_append duplicateProject_row_def
          split: option.split)
qed

text \<open>
  The project \<open>p1\<close> with its three pages, duplicated by user \<open>u1\<close>.
\<close>

theorem duplicateProject_copies_pages_witness:
  "length example_pages = 3
   \<and> requests_of (snd (duplicateProject (example_manager []) example_project
        (Some example_user) (Inr example_new_project) (Inr (Some example_pages)) None)) =
        [AuthGetUser, ProjectsInsert (duplicateProject_row example_project example_user),
         PagesSelectByProject ''p1'',
         PagesInsert (map (copy_page example_new_project) example_pages)]
   \<and> list_all2 preserves_page (map (copy_page example_new_project) example_pages) example_pages
   \<and> projects (fst (duplicateProject (example_manager []) example_project
        (Some example_user) (Inr example_new_project) (Inr (Some example_pages)) None)) =
        [example_new_project, example_project]"
proof -
  have h: "length example_pages = 3" by (simp add: example_pages_def)
  from duplicateProject_copies_pages
    [of "example_manager []" example_project "Some example_user" "Inr example_new_project"
        "Inr (Some example_pages)" None example_user example_new_project example_pages] h
  show ?thesis by (simp add: example_manager_def example_project_def)
qed

text \<open>
  C6 as it is written fails when the backend reports no signed-in user: for a project with
  3 pages the operation reads the user and ends in its \<^verbatim>\<open>catch\<close>; no project and no
  page is inserted.
\<close>

theorem duplicateProject_no_user_counterexample:
  "length example_pages = 3
   \<and> duplicateProject (example_manager []) example_project None
        (Inr example_new_project) (Inr (Some example_pages)) None
     = (example_manager [],
        [Backend AuthGetUser, Console_error ''Error duplicating project:'',
         Toast_error ''Failed to duplicate project''])"
  by (simp add: duplicateProject_def example_pages_def)

text \<open>
  The save started by the timer of \<open>handlePublish\<close> is the \<open>handleSave\<close> of the render
  in which the button was clicked: the row it sends has the \<open>is_published\<close> of before the
  click, whatever the state was, while the component's \<open>pageData\<close> has the flipped one.
\<close>

lemma publish_saves_old_flag:
  assumes "currentPage scope = Some cp" and "truthy (projectId scope)"
  shows "requests_of (snd (publish_then_timer scope now updated)) =
           [PagesUpdate (page_id cp) (save_row (pageData scope) now)]
       \<and> upd_is_published (save_row (pageData scope) now) = isPublished (pageData scope)
       \<and> isPublished (pageData (fst (publish_then_timer scope now updated))) =
           (\<not> isPublished (pageData scope))"
  using assms
  by (simp add: publish_then_timer_def handlePublish_def handleSave_def Let_def save_row_def
        split: option.split)

text \<open>
  C7 on the code. For a page that is not published, the click flips \<open>isPublished\<close> of
  \<open>pageData\<close> to true, and the save that follows sends \<open>is_published = False\<close>, the value
  from before the click; the page list then holds that value too. C7 says the save carries
  the flipped value.
\<close>

theorem publish_saves_stale_flag:
  "isPublished (pageData example_editor) = False
   \<and> isPublished (pageData (fst (handlePublish example_editor))) = True
   \<and> requests_of (snd (publish_then_timer example_editor ''2025-03-01T00:00:00.000Z'' None)) =
       [PagesUpdate ''g1''
          \<lparr>upd_title = ''Home'', upd_slug = ''home'', upd_content = ''# Hello'',
           upd_meta_description = ''About'', upd_meta_keywords = [],
           upd_is_published = False,
           upd_updated_at = ''2025-03-01T00:00:00.000Z''\<rparr>]
   \<and> map page_is_published
       (pages (fst (publish_then_timer example_editor ''2025-03-01T00:00:00.000Z'' None))) = [False]"
  by (simp add: publish_then_timer_def handlePublish_def handleSave_def Let_def save_row_def
        example_editor_def example_page_def merge_pageData_def)

section \<open>Properties of the dashboard\<close>

text \<open>A number below \<open>2 ^ j\<close> has at most \<open>j\<close> bits.\<close>

lemma bit_length_le: "n < 2 ^ j \<Longrightarrow> bit_length n \<le> j"
proof (induction n arbitrary: j rule: bit_length.induct)
  case (1 n)
  show ?case
  proof (cases "n = 0")
    case True
    then show ?thesis by (subst bit_length.simps) simp
  next
    case False
    with "1.prems" obtain i where j: "j = Suc i" by (cases j) auto
    with "1.prems" have "n div 2 < 2 ^ i" by simp
    with False "1.IH" have "bit_length (n div 2) \<le> i" by simp
    with False j show ?thesis by (subst bit_length.simps) simp
  qed
qed

lemma five_times_numerator: "5 * double_0_4_numerator = 2 ^ 54 + 1"
  by (simp add: double_0_4_numerator_def)

lemma product_bounds:
  assumes n: "n < 2 ^ 32"
  defines "N \<equiv> n * double_0_4_numerator"
  defines "k \<equiv> (2 * n) div 5"
  shows "k * 2 ^ 53 \<le> N" and "N + 2 ^ 50 < (k + 1) * 2 ^ 53" and "N < 2 ^ 84"
proof -
  have five: "5 * N = 2 * n * 2 ^ 53 + n"
    using five_times_numerator by (simp add: N_def algebra_simps)
  have k1: "5 * k \<le> 2 * n" and k2: "2 * n < 5 * k + 5"
    unfolding k_def by presburger+
  have "5 * (k * 2 ^ 53) \<le> 2 * n * 2 ^ 53" using k1 by simp
  with five show "k * 2 ^ 53 \<le> N" by linarith
  have "2 * n + 1 \<le> 5 * k + 5" using k2 by simp
  then have "(2 * n + 1) * 2 ^ 53 \<le> (5 * k + 5) * 2 ^ 53"
    by (rule mult_le_mono1)
  then have "5 * N + 2 ^ 53 \<le> 5 * ((k + 1) * 2 ^ 53) + n"
    using five by (simp add: algebra_simps)
  with n show "N + 2 ^ 50 < (k + 1) * 2 ^ 53" by simp
  have "N < 2 ^ 32 * double_0_4_numerator"
    unfolding N_def using n by (simp add: double_0_4_numerator_def)
  then show "N < 2 ^ 84" by (simp add: double_0_4_numerator_def)
qed

text \<open>
  The rounded product, floored, is \<open>2 * n div 5\<close> for every count below \<open>2 ^ 32\<close>, the
  bound on the length of a JavaScript array.
\<close>

lemma floor_times_0_4_exact:
  assumes n: "n < 2 ^ 32"
  shows "floor_times_0_4 n = (2 * n) div 5"
proof -
  define N where "N = n * double_0_4_numerator"
  define k where "k = (2 * n) div 5"
  have lo: "k * 2 ^ 53 \<le> N" and hi: "N + 2 ^ 50 < (k + 1) * 2 ^ 53" and N84: "N < 2 ^ 84"
    using product_bounds [OF n] by (simp_all add: N_def k_def)
  have "k * 2 ^ 53 \<le> round_53_bits N \<and> round_53_bits N < (k + 1) * 2 ^ 53"
  proof (cases "bit_length N \<le> 53")
    case True
    then show ?thesis using lo hi by (simp add: round_53_bits_def)
  next
    case False
    define s where "s = bit_length N - 53"
    define q where "q = N div 2 ^ s"
    have s31: "s \<le> 31" using bit_length_le [OF N84] unfolding s_def by linarith
    have val: "round_53_bits N = q * 2 ^ s \<or> round_53_bits N = (q + 1) * 2 ^ s"
      using False by (simp add: round_53_bits_def Let_def s_def q_def)
    have q_le: "q * 2 ^ s \<le> N" by (simp add: q_def)
    have pow: "(2::nat) ^ 53 = 2 ^ (53 - s) * 2 ^ s"
      using s31 by (simp flip: power_add)
    have "k * 2 ^ (53 - s) * 2 ^ s \<le> N" using lo by (simp only: pow mult.assoc)
    then have "k * 2 ^ (53 - s) \<le> q"
      unfolding q_def by (simp add: less_eq_div_iff_mult_less_eq)
    then have "k * 2 ^ (53 - s) * 2 ^ s \<le> q * 2 ^ s" by (rule mult_le_mono1)
    then have low: "k * 2 ^ 53 \<le> q * 2 ^ s" by (simp only: pow mult.assoc)
    have "(2::nat) ^ s \<le> 2 ^ 31" using s31 by (rule power_increasing) simp
    then have "(q + 1) * 2 ^ s \<le> N + 2 ^ 31" using q_le by (simp add: algebra_simps)
    then have high: "(q + 1) * 2 ^ s < (k + 1) * 2 ^ 53" using hi by simp
    have "q * 2 ^ s \<le> (q + 1) * 2 ^ s" by simp
    with val low high show ?thesis by auto
  qed
  then have "round_53_bits N div 2 ^ 53 = k"
    by (intro div_nat_eqI) (simp_all add: mult.commute)
  then show ?thesis by (simp add: floor_times_0_4_def N_def k_def)
qed

lemma floor_two_fifths: "\<lfloor>real n * 0.4\<rfloor> = int ((2 * n) div 5)"
proof -
  have "real n * 0.4 = real (2 * n) / real 5" by simp
  then show ?thesis by (simp only: floor_divide_of_nat_eq)
qed

lemma length_or_0_eq: "length_or_0 xs = length (list_or_empty xs)"
  by (cases xs) (simp_all add: length_or_0_def list_or_empty_def)

text \<open>
  C8. When both queries of \<open>loadDashboardData\<close> succeed, the queries are the 5 projects
  most recently updated and all analytics events; \<open>totalProjects\<close> is the number of
  projects fetched, \<open>publishedSites\<close> the number of those that are published,
  \<open>totalViews\<close> the number of analytics events, and \<open>activeUsers\<close> is
  \<open>\<lfloor>totalViews * 0.4\<rfloor>\<close>. The events are a JavaScript array, so there are fewer than
  \<open>2 ^ 32\<close> of them.
\<close>

theorem loadDashboardData_stats:
  assumes "projectsAnswer = Inr projectsData" and "analyticsAnswer = Inr analyticsData"
    and "length (list_or_empty analyticsData) < 2 ^ 32"
  shows "requests_of (snd (loadDashboardData st projectsAnswer analyticsAnswer)) =
           [ProjectsSelect ''updated_at'' False (Some 5), AnalyticsSelectAll]
       \<and> dash_projects (fst (loadDashboardData st projectsAnswer analyticsAnswer)) =
           list_or_empty projectsData
       \<and> totalProjects (stats (fst (loadDashboardData st projectsAnswer analyticsAnswer))) =
           length (list_or_empty projectsData)
       \<and> publishedSites (stats (fst (loadDashboardData st projectsAnswer analyticsAnswer))) =
           length (filter proj_is_published (list_or_empty projectsData))
       \<and> totalViews (stats (fst (loadDashboardData st projectsAnswer analyticsAnswer))) =
           length (list_or_empty analyticsData)
       \<and> int (activeUsers (stats (fst (loadDashboardData st projectsAnswer analyticsAnswer)))) =
           \<lfloor>real (totalViews (stats (fst (loadDashboardData st projectsAnswer analyticsAnswer))))
              * 0.4\<rfloor>"
proof -
  let ?r = "loadDashboardData st (Inr projectsData) (Inr analyticsData)"
  have published: "length_or_0 (map_option (filter proj_is_published) projectsData) =
      length (filter proj_is_published (list_or_empty projectsData))"
    by (cases projectsData) (simp_all add: length_or_0_def list_or_empty_def)
  have "floor_times_0_4 (length (list_or_empty analyticsData)) =
      (2 * length (list_or_empty analyticsData)) div 5"
    using assms(3) by (rule floor_times_0_4_exact)
  then have active: "int (floor_times_0_4 (length (list_or_empty analyticsData))) =
      \<lfloor>real (length (list_or_empty analyticsData)) * 0.4\<rfloor>"
    by (simp only: floor_two_fifths)
  have calls: "requests_of (snd ?r) =
      [ProjectsSelect ''updated_at'' False (Some 5), AnalyticsSelectAll]"
    by (simp add: loadDashboardData_def Let_def recent_projects_query_def)
  have shown: "dash_projects (fst ?r) = list_or_empty projectsData"
    by (simp add: loadDashboardData_def Let_def)
  have total: "totalProjects (stats (fst ?r)) = length (list_or_empty projectsData)"
    by (simp add: loadDashboardData_def Let_def length_or_0_eq)
  have sites: "publishedSites (stats (fst ?r)) =
      length (filter proj_is_published (list_or_empty projectsData))"
    by (simp add: loadDashboardData_def Let_def published)
  have views: "totalViews (stats (fst ?r)) = length (list_or_empty analyticsData)"
    by (simp add: loadDashboardData_def Let_def length_or_0_eq)
  have "activeUsers (stats (fst ?r)) =
      floor_times_0_4 (length (list_or_empty analyticsData))"
    by (simp add: loadDashboardData_def Let_def length_or_0_eq)
  then have users: "int (activeUsers (stats (fst ?r))) =
      \<lfloor>real (totalViews (stats (fst ?r))) * 0.4\<rfloor>"
    by (simp only: active views)
  from calls shown total sites views users show ?thesis
    unfolding assms(1,2) by (intro conjI)
qed

text \<open>
  Two projects, one of them published, and seven events.
\<close>

theorem loadDashboardData_stats_witness:
  "length (list_or_empty (Some (replicate 7 example_event))) < 2 ^ 32
   \<and> stats (fst (loadDashboardData initial_dashboard
        (Inr (Some [example_project, example_new_project]))
        (Inr (Some (replicate 7 example_event)))))
     = \<lparr>totalProjects = 2, publishedSites = 1, totalViews = 7, activeUsers = 2\<rparr>
   \<and> int (activeUsers (stats (fst (loadDashboardData initial_dashboard
        (Inr (Some [example_project, example_new_project]))
        (Inr (Some (replicate 7 example_event))))))) =
       \<lfloor>real (totalViews (stats (fst (loadDashboardData initial_dashboard
        (Inr (Some [example_project, example_new_project]))
        (Inr (Some (replicate 7 example_event))))))) * 0.4\<rfloor>"
proof -
  have h: "length (list_or_empty (Some (replicate 7 example_event))) < 2 ^ 32"
    by (simp add: list_or_empty_def)
  have seven: "floor_times_0_4 7 = 2"
    by (simp add: floor_times_0_4_def round_53_bits_def double_0_4_numerator_def
          bit_length.simps)
  have evaluated: "stats (fst (loadDashboardData initial_dashboard
        (Inr (Some [example_project, example_new_project]))
        (Inr (Some (replicate 7 example_event)))))
     = \<lparr>totalProjects = 2, publishedSites = 1, totalViews = 7, activeUsers = 2\<rparr>"
    by (simp add: loadDashboardData_def Let_def length_or_0_def seven
          example_project_def example_new_project_def)
  from loadDashboardData_stats [OF refl refl h, of initial_dashboard
      "Some [example_project, example_new_project]"] h evaluated
  show ?thesis by simp
qed

end
